theory Spec2Isabelle
  imports Main
begin

section \<open>Token access manager: the chat server of tokenAccessManager.js\<close>

text \<open>
  The theory embeds the WebSocket part of class TokenAccessManager: the message handler
  installed by initChatServer, the close handler, checkAccess, addUserToRoom,
  removeUserFromRooms and broadcastToRoom. Each handler is modelled as one atomic step on
  an explicit state; the interleaving of handlers at their await points is not modelled.
\<close>

subsection \<open>Values on the wire\<close>

text \<open>
  An inbound frame is a text that the handler passes to JSON.parse. The model starts
  from the outcome of JSON.parse: either it throws, or it yields a JSON value.
\<close>

datatype json =
    JNull
  | JBool bool
  | JNum int
  | JStr string
  | JArr "json list"
  | JObj "(string \<times> json) list"

datatype js_error = SyntaxError | TypeError | NumericFault

type_synonym parsed = "js_error + json"

text \<open>
  Reading a property of a parsed value other than null: an object yields its own
  property or undefined (None); the properties read by the handler (type, signature,
  message, creatorAddress, roomId, content) are undefined on booleans, numbers, strings
  and arrays. Reading a property of null throws; the handler treats that case apart.
\<close>

definition get_prop :: "json \<Rightarrow> string \<Rightarrow> json option" where
  "get_prop data k = (case data of JObj kvs \<Rightarrow> map_of kvs k | _ \<Rightarrow> None)"

text \<open>The frames the server sends (the objects given to JSON.stringify).\<close>

datatype out_frame =
    auth_result bool "string list"
  | error_frame string
  | room_joined string
  | new_message string "json option" nat

subsection \<open>JavaScript sets in insertion order\<close>

definition Set_add :: "'a \<Rightarrow> 'a list \<Rightarrow> 'a list" where
  "Set_add x xs = (if x \<in> set xs then xs else xs @ [x])"

definition Set_delete :: "'a \<Rightarrow> 'a list \<Rightarrow> 'a list" where
  "Set_delete x xs = filter (\<lambda>y. y \<noteq> x) xs"

subsection \<open>The external collaborators\<close>

text \<open>
  The contract, the signature recovery and the clock are outside the class; they are
  parameters of every step, so that the ledger may differ from one frame to the next.
  None stands for a call that throws (or a promise that rejects).
\<close>

record env =
  verifyMessage :: "json option \<Rightarrow> json option \<Rightarrow> string option"
  queryFilter :: "string option \<Rightarrow> string list option"
  keysBalance :: "string \<Rightarrow> string \<Rightarrow> nat option"
  Date_now :: nat

text \<open>
  The balance is an ethers (version 5) BigNumber. Its method gt compares; its method
  toNumber throws a numeric fault when the value does not fit a JavaScript safe integer,
  that is when it is 2^53 or more.
\<close>

definition MAX_SAFE_INTEGER :: nat where
  "MAX_SAFE_INTEGER = 2 ^ 53 - 1"

definition toNumber :: "nat \<Rightarrow> js_error + nat" where
  "toNumber b = (if b \<le> MAX_SAFE_INTEGER then Inr b else Inl NumericFault)"

record access =
  hasAccess :: bool
  keyCount :: "nat option"

text \<open>
  checkAccess: the object literal evaluates balance.gt(0) and then balance.toNumber();
  any exception inside the try block yields hasAccess false (the error text is left out
  of the record).
\<close>

definition checkAccess :: "env \<Rightarrow> string \<Rightarrow> string \<Rightarrow> access" where
  "checkAccess e userAddress creatorAddress =
     (case keysBalance e userAddress creatorAddress of
        None \<Rightarrow> \<lparr>hasAccess = False, keyCount = None\<rparr>
      | Some balance \<Rightarrow>
          (case toNumber balance of
             Inl err \<Rightarrow> \<lparr>hasAccess = False, keyCount = None\<rparr>
           | Inr n \<Rightarrow> \<lparr>hasAccess = (0 < balance), keyCount = Some n\<rparr>))"

definition authenticateUser :: "env \<Rightarrow> json option \<Rightarrow> json option \<Rightarrow> string option" where
  "authenticateUser e signature message = verifyMessage e message signature"

definition getUserAccessibleRooms :: "env \<Rightarrow> string option \<Rightarrow> string list" where
  "getUserAccessibleRooms e userAddress =
     (case queryFilter e userAddress of
        None \<Rightarrow> []
      | Some subjects \<Rightarrow> foldl (\<lambda>creatorSet s. Set_add s creatorSet) [] subjects)"

subsection \<open>The state of the server\<close>

type_synonym conn = nat

record session =
  userId :: string
  rooms :: "string list"

text \<open>
  userSessions and chatRooms are the two maps of the class. conn_userId and
  conn_accessibleRooms are the variables userId and accessibleRooms of the closure made
  for each connection. readyState is the property of the socket (1 is OPEN, 3 is
  CLOSED). sent records every call of ws.send, in order.
\<close>

record state =
  userSessions :: "conn \<rightharpoonup> session"
  chatRooms :: "string \<rightharpoonup> conn list"
  conn_userId :: "conn \<Rightarrow> string option"
  conn_accessibleRooms :: "conn \<Rightarrow> string list"
  readyState :: "conn \<Rightarrow> nat"
  sent :: "(conn \<times> out_frame) list"

definition init_state :: state where
  "init_state =
     \<lparr>userSessions = Map.empty, chatRooms = Map.empty,
      conn_userId = (\<lambda>ws. None), conn_accessibleRooms = (\<lambda>ws. []),
      readyState = (\<lambda>ws. 3), sent = []\<rparr>"

definition ws_send :: "conn \<Rightarrow> out_frame \<Rightarrow> state \<Rightarrow> state" where
  "ws_send ws frame st = st\<lparr>sent := sent st @ [(ws, frame)]\<rparr>"

text \<open>JavaScript truthiness of userId: null and the empty string are falsy.\<close>

definition truthy :: "string option \<Rightarrow> bool" where
  "truthy u = (case u of None \<Rightarrow> False | Some s \<Rightarrow> s \<noteq> [])"

subsection \<open>Rooms\<close>

definition addUserToRoom :: "conn \<Rightarrow> string \<Rightarrow> string \<Rightarrow> state \<Rightarrow> state" where
  "addUserToRoom ws uid roomId st =
     (let room = (case chatRooms st roomId of None \<Rightarrow> [] | Some r \<Rightarrow> r);
          st1 = st\<lparr>chatRooms := (chatRooms st)(roomId \<mapsto> Set_add ws room)\<rparr>;
          st2 = st1\<lparr>userSessions := (userSessions st1)(ws \<mapsto> \<lparr>userId = uid, rooms = [roomId]\<rparr>)\<rparr>
      in ws_send ws (room_joined roomId) st2)"

text \<open>One turn of the loop of removeUserFromRooms, on the map of rooms.\<close>

definition leave_room :: "conn \<Rightarrow> string \<Rightarrow> (string \<rightharpoonup> conn list) \<Rightarrow> (string \<rightharpoonup> conn list)" where
  "leave_room ws roomId cr =
     (case cr roomId of
        None \<Rightarrow> cr
      | Some room \<Rightarrow>
          (if Set_delete ws room = [] then cr(roomId := None)
           else cr(roomId \<mapsto> Set_delete ws room)))"

definition removeUserFromRooms :: "conn \<Rightarrow> string \<Rightarrow> state \<Rightarrow> state" where
  "removeUserFromRooms ws uid st =
     (case userSessions st ws of
        None \<Rightarrow> st
      | Some s \<Rightarrow>
          st\<lparr>chatRooms := fold (leave_room ws) (rooms s) (chatRooms st),
             userSessions := (userSessions st)(ws := None)\<rparr>)"

text \<open>
  broadcastToRoom has no return statement with a value: the first component of the
  result is what the caller receives, None for undefined. The key given to
  chatRooms.get is whatever the frame holds; the map only ever holds string keys, and
  Map compares keys without coercion.
\<close>

definition chatRooms_get :: "state \<Rightarrow> json option \<Rightarrow> conn list option" where
  "chatRooms_get st roomId = (case roomId of Some (JStr r) \<Rightarrow> chatRooms st r | _ \<Rightarrow> None)"

definition deliver :: "out_frame \<Rightarrow> conn option \<Rightarrow> conn \<Rightarrow> state \<Rightarrow> state" where
  "deliver message excludeWs client st =
     (if Some client \<noteq> excludeWs \<and> readyState st client = 1
      then ws_send client message st else st)"

definition broadcastToRoom ::
    "json option \<Rightarrow> out_frame \<Rightarrow> conn option \<Rightarrow> state \<Rightarrow> nat option \<times> state" where
  "broadcastToRoom roomId message excludeWs st =
     (case chatRooms_get st roomId of
        None \<Rightarrow> (None, st)
      | Some room \<Rightarrow> (None, fold (deliver message excludeWs) room st))"

subsection \<open>The handlers of a connection\<close>

definition on_connection :: "conn \<Rightarrow> state \<Rightarrow> state" where
  "on_connection ws st =
     st\<lparr>conn_userId := (conn_userId st)(ws := None),
        conn_accessibleRooms := (conn_accessibleRooms st)(ws := []),
        readyState := (readyState st)(ws := 1)\<rparr>"

definition on_auth :: "env \<Rightarrow> conn \<Rightarrow> json \<Rightarrow> state \<Rightarrow> state" where
  "on_auth e ws data st =
     (let uid = authenticateUser e (get_prop data ''signature'') (get_prop data ''message'');
          accessible = getUserAccessibleRooms e uid;
          st1 = st\<lparr>conn_userId := (conn_userId st)(ws := uid),
                   conn_accessibleRooms := (conn_accessibleRooms st)(ws := accessible)\<rparr>
      in ws_send ws (auth_result (truthy uid) accessible) st1)"

text \<open>
  join_room: the contract call rejects a creatorAddress that is not a string (the
  argument check of ethers), which checkAccess turns into hasAccess false.
\<close>

definition on_join_room :: "env \<Rightarrow> conn \<Rightarrow> json \<Rightarrow> state \<Rightarrow> state" where
  "on_join_room e ws data st =
     (case conn_userId st ws of
        None \<Rightarrow> ws_send ws (error_frame ''Not authenticated'') st
      | Some uid \<Rightarrow>
          (if uid = [] then ws_send ws (error_frame ''Not authenticated'') st
           else
             (case get_prop data ''creatorAddress'' of
                Some (JStr creatorAddress) \<Rightarrow>
                  (if hasAccess (checkAccess e uid creatorAddress)
                   then addUserToRoom ws uid creatorAddress st
                   else ws_send ws
                     (error_frame ''You do not have access to this room. Purchase keys first.'') st)
              | _ \<Rightarrow> ws_send ws
                     (error_frame ''You do not have access to this room. Purchase keys first.'') st)))"

definition on_send_message :: "env \<Rightarrow> conn \<Rightarrow> json \<Rightarrow> state \<Rightarrow> state" where
  "on_send_message e ws data st =
     (case conn_userId st ws of
        None \<Rightarrow> ws_send ws (error_frame ''Not authenticated'') st
      | Some uid \<Rightarrow>
          (if uid = [] then ws_send ws (error_frame ''Not authenticated'') st
           else snd (broadcastToRoom (get_prop data ''roomId'')
                  (new_message uid (get_prop data ''content'') (Date_now e)) (Some ws) st)))"

text \<open>
  The message handler. A frame that JSON.parse rejects, and the value null (whose
  property type cannot be read), reach the catch block. The switch has three cases and
  no default.
\<close>

definition on_message :: "env \<Rightarrow> conn \<Rightarrow> parsed \<Rightarrow> state \<Rightarrow> state" where
  "on_message e ws message st =
     (case message of
        Inl err \<Rightarrow> ws_send ws (error_frame ''Invalid message format'') st
      | Inr data \<Rightarrow>
          (if data = JNull then ws_send ws (error_frame ''Invalid message format'') st
           else if get_prop data ''type'' = Some (JStr ''auth'') then on_auth e ws data st
           else if get_prop data ''type'' = Some (JStr ''join_room'') then on_join_room e ws data st
           else if get_prop data ''type'' = Some (JStr ''send_message'')
             then on_send_message e ws data st
           else st))"

text \<open>The close handler; the socket is CLOSED when it runs.\<close>

definition on_close :: "conn \<Rightarrow> state \<Rightarrow> state" where
  "on_close ws st =
     (let st1 = st\<lparr>readyState := (readyState st)(ws := 3)\<rparr>
      in (case conn_userId st1 ws of
            None \<Rightarrow> st1
          | Some uid \<Rightarrow> (if uid = [] then st1 else removeUserFromRooms ws uid st1)))"

subsection \<open>Classes of inbound frames\<close>

text \<open>
  A frame reaches the catch block when JSON.parse throws or yields null. A frame is
  unrecognized when it parses to another value whose property type is none of the three
  cases of the switch (a missing type included).
\<close>

definition unparsable :: "parsed \<Rightarrow> bool" where
  "unparsable message = (case message of Inl err \<Rightarrow> True | Inr data \<Rightarrow> data = JNull)"

definition unrecognized :: "parsed \<Rightarrow> bool" where
  "unrecognized message =
     (case message of
        Inl err \<Rightarrow> False
      | Inr data \<Rightarrow>
          data \<noteq> JNull \<and> get_prop data ''type'' \<noteq> Some (JStr ''auth'') \<and>
          get_prop data ''type'' \<noteq> Some (JStr ''join_room'') \<and>
          get_prop data ''type'' \<noteq> Some (JStr ''send_message''))"

text \<open>The half of the membership invariant that every step keeps.\<close>

definition joined_implies_member :: "state \<Rightarrow> bool" where
  "joined_implies_member st =
     (\<forall>ws s r. userSessions st ws = Some s \<longrightarrow> r \<in> set (rooms s) \<longrightarrow>
        (\<exists>room. chatRooms st r = Some room \<and> ws \<in> set room))"

subsection \<open>Scenarios\<close>

text \<open>
  A ledger that reports the same balance for every pair, a signature check that
  recovers the address written in the signature field, and the three inbound frames.
\<close>

definition holds :: "nat \<Rightarrow> string \<Rightarrow> string \<Rightarrow> nat option" where
  "holds n u c = Some n"

definition test_env :: "(string \<Rightarrow> string \<Rightarrow> nat option) \<Rightarrow> env" where
  "test_env ledger =
     \<lparr>verifyMessage =
        (\<lambda>message signature. case signature of Some (JStr a) \<Rightarrow> Some a | _ \<Rightarrow> None),
      queryFilter = (\<lambda>u. Some []),
      keysBalance = ledger,
      Date_now = 1000\<rparr>"

definition auth_frame :: "string \<Rightarrow> parsed" where
  "auth_frame a =
     Inr (JObj [(''type'', JStr ''auth''), (''signature'', JStr a), (''message'', JStr ''login'')])"

definition join_frame :: "string \<Rightarrow> parsed" where
  "join_frame r = Inr (JObj [(''type'', JStr ''join_room''), (''creatorAddress'', JStr r)])"

definition send_frame :: "string \<Rightarrow> string \<Rightarrow> parsed" where
  "send_frame r c =
     Inr (JObj [(''type'', JStr ''send_message''), (''roomId'', JStr r), (''content'', JStr c)])"

text \<open>A connection opens and authenticates as a holder of one key.\<close>

definition s_auth :: "conn \<Rightarrow> string \<Rightarrow> state \<Rightarrow> state" where
  "s_auth ws a st = on_message (test_env (holds 1)) ws (auth_frame a) (on_connection ws st)"

text \<open>Connection 1 authenticates and joins room R1; then it joins room R2 as well.\<close>

definition s_joined1 :: state where
  "s_joined1 = on_message (test_env (holds 1)) 1 (join_frame ''R1'') (s_auth 1 ''0xA'' init_state)"

definition s_joined2 :: state where
  "s_joined2 = on_message (test_env (holds 1)) 1 (join_frame ''R2'') s_joined1"

text \<open>Connection 2 is the only member of R1; connection 1 is authenticated and in no room.\<close>

definition s_two :: state where
  "s_two =
     s_auth 1 ''0xA''
       (on_message (test_env (holds 1)) 2 (join_frame ''R1'') (s_auth 2 ''0xB'' init_state))"

text \<open>Connections 1, 2 and 3 are the members of R1, all open.\<close>

definition s_three :: state where
  "s_three =
     on_message (test_env (holds 1)) 3 (join_frame ''R1'') (s_auth 3 ''0xC''
       (on_message (test_env (holds 1)) 2 (join_frame ''R1'') (s_auth 2 ''0xB'' s_joined1)))"

lemmas model_defs =
  holds_def test_env_def auth_frame_def join_frame_def send_frame_def s_auth_def
  on_message_def on_auth_def on_join_room_def on_send_message_def on_close_def
  on_connection_def init_state_def ws_send_def truthy_def addUserToRoom_def
  removeUserFromRooms_def leave_room_def broadcastToRoom_def chatRooms_get_def deliver_def
  get_prop_def checkAccess_def toNumber_def MAX_SAFE_INTEGER_def authenticateUser_def
  getUserAccessibleRooms_def Set_add_def Set_delete_def

section \<open>Access decisions\<close>

lemma checkAccess_safe_range:
  "keysBalance e u c = Some b \<Longrightarrow> b \<le> MAX_SAFE_INTEGER \<Longrightarrow> hasAccess (checkAccess e u c) = (0 < b)"
  by (simp add: checkAccess_def toNumber_def)

lemma checkAccess_ledger_unavailable:
  "keysBalance e u c = None \<Longrightarrow> hasAccess (checkAccess e u c) = False"
  by (simp add: checkAccess_def)

text \<open>
  Claim C3. The access decision should be true exactly when the balance is positive, and
  false when the ledger query fails. The second half holds
  (\<open>checkAccess_ledger_unavailable\<close>), and so does the first for every balance below
  2^53 (\<open>checkAccess_safe_range\<close>). At a balance of 2^53 the conversion of the balance
  to a number for the field keyCount throws inside the try block, and the decision is
  false although the balance is positive; the join is then refused.
\<close>

theorem checkAccess_overflow_denied:
  "hasAccess (checkAccess (test_env (holds (2 ^ 53))) ''0xA'' ''R1'') = False \<and>
   sent (on_message (test_env (holds (2 ^ 53))) 1 (join_frame ''R1'') (s_auth 1 ''0xA'' init_state)) =
     [(1, auth_result True []),
      (1, error_frame ''You do not have access to this room. Purchase keys first.'')]"
  by (simp add: model_defs)

text \<open>
  Claim C5. The decision is taken anew from the ledger at every join_room frame: in any
  state, whatever rooms the connection is a member of, an authenticated user whose
  balance for the creator is zero gets the access error and nothing else changes.
\<close>

theorem join_room_rechecks_balance:
  assumes "conn_userId st ws = Some uid" and "uid \<noteq> []"
    and "get_prop data ''type'' = Some (JStr ''join_room'')"
    and "get_prop data ''creatorAddress'' = Some (JStr r)"
    and "keysBalance e uid r = Some 0"
  shows "on_message e ws (Inr data) st =
     ws_send ws (error_frame ''You do not have access to this room. Purchase keys first.'') st"
proof -
  from assms(3) have "data \<noteq> JNull" by (auto simp: get_prop_def)
  with assms show ?thesis
    by (simp add: on_message_def on_join_room_def checkAccess_def toNumber_def)
qed

text \<open>
  Connection 1 joined R1 while holding a key and is a member of R1; with a balance of
  zero its next join_room for R1 is refused.
\<close>

theorem join_room_rechecks_balance_witness:
  "chatRooms s_joined1 ''R1'' = Some [1] \<and>
   on_message (test_env (holds 0)) 1 (join_frame ''R1'') s_joined1 =
     ws_send 1 (error_frame ''You do not have access to this room. Purchase keys first.'') s_joined1"
proof -
  have u: "conn_userId s_joined1 1 = Some ''0xA''" and m: "chatRooms s_joined1 ''R1'' = Some [1]"
    by (simp_all add: s_joined1_def model_defs)
  from join_room_rechecks_balance [of s_joined1 1 "''0xA''"
      "JObj [(''type'', JStr ''join_room''), (''creatorAddress'', JStr ''R1'')]" "''R1''"
      "test_env (holds 0)"] u m
  show ?thesis
    by (simp add: join_frame_def get_prop_def test_env_def holds_def)
qed

section \<open>Authentication\<close>

text \<open>
  Claim C8, as the code has it. Authentication is repeatable: every auth frame, in any
  state, stores the outcome of the signature check as the identity of the connection
  (null when the check fails), whatever identity was set before, and answers with an
  auth_result frame; no frame is refused because an identity is already set.
\<close>

theorem auth_overwrites_identity:
  assumes "get_prop data ''type'' = Some (JStr ''auth'')"
  shows "conn_userId (on_message e ws (Inr data) st) ws =
           authenticateUser e (get_prop data ''signature'') (get_prop data ''message'') \<and>
         sent (on_message e ws (Inr data) st) =
           sent st @ [(ws, auth_result
              (truthy (authenticateUser e (get_prop data ''signature'') (get_prop data ''message'')))
              (getUserAccessibleRooms e
                 (authenticateUser e (get_prop data ''signature'') (get_prop data ''message''))))]"
proof -
  from assms have "data \<noteq> JNull" by (auto simp: get_prop_def)
  with assms show ?thesis
    by (simp add: on_message_def on_auth_def ws_send_def Let_def)
qed

theorem auth_overwrites_identity_witness:
  "conn_userId
     (on_message (test_env (holds 1)) 1 (auth_frame ''0xB'') (s_auth 1 ''0xA'' init_state)) 1 =
     Some ''0xB''"
  using auth_overwrites_identity
    [of "JObj [(''type'', JStr ''auth''), (''signature'', JStr ''0xB''), (''message'', JStr ''login'')]"
      "test_env (holds 1)" 1 "s_auth 1 ''0xA'' init_state"]
  by (simp add: auth_frame_def get_prop_def authenticateUser_def test_env_def)

text \<open>
  The claim as stated fails: connection 1 is authenticated as 0xA, a second auth frame
  signed by 0xB succeeds and replaces the identity.
\<close>

theorem second_auth_replaces_identity:
  "conn_userId (s_auth 1 ''0xA'' init_state) 1 = Some ''0xA'' \<and>
   conn_userId
     (on_message (test_env (holds 1)) 1 (auth_frame ''0xB'') (s_auth 1 ''0xA'' init_state)) 1 =
     Some ''0xB'' \<and>
   sent (on_message (test_env (holds 1)) 1 (auth_frame ''0xB'') (s_auth 1 ''0xA'' init_state)) =
     [(1, auth_result True []), (1, auth_result True [])]"
  by (simp add: model_defs)

section \<open>Malformed frames\<close>

text \<open>
  Claim C7, as the code has it. A frame on which JSON.parse throws, or which parses to
  null, is answered with the error frame "Invalid message format"; the socket stays as
  it is and sessions, rooms and identities are unchanged. A frame that parses to another
  value and has a missing or unrecognized type is ignored: no frame is sent and the
  state is unchanged.
\<close>

theorem malformed_frame_effect:
  "(unparsable message \<longrightarrow>
      sent (on_message e ws message st) = sent st @ [(ws, error_frame ''Invalid message format'')] \<and>
      readyState (on_message e ws message st) = readyState st \<and>
      userSessions (on_message e ws message st) = userSessions st \<and>
      chatRooms (on_message e ws message st) = chatRooms st \<and>
      conn_userId (on_message e ws message st) = conn_userId st) \<and>
   (unrecognized message \<longrightarrow> on_message e ws message st = st)"
  by (auto simp: unparsable_def unrecognized_def on_message_def ws_send_def split: sum.splits)

theorem malformed_frame_effect_witness:
  "unparsable (Inl SyntaxError) \<and>
   sent (on_message (test_env (holds 1)) 1 (Inl SyntaxError) (s_auth 1 ''0xA'' init_state)) =
     [(1, auth_result True []), (1, error_frame ''Invalid message format'')] \<and>
   unrecognized (Inr (JObj [(''content'', JStr ''hi'')])) \<and>
   on_message (test_env (holds 1)) 1 (Inr (JObj [(''content'', JStr ''hi'')]))
     (s_auth 1 ''0xA'' init_state) = s_auth 1 ''0xA'' init_state"
proof -
  have u: "unparsable (Inl SyntaxError)" by (simp add: unparsable_def)
  have r: "unrecognized (Inr (JObj [(''content'', JStr ''hi'')]))"
    by (simp add: unrecognized_def get_prop_def)
  have s: "sent (s_auth 1 ''0xA'' init_state) = [(1, auth_result True [])]"
    by (simp add: model_defs)
  from malformed_frame_effect
      [of "Inl SyntaxError" "test_env (holds 1)" 1 "s_auth 1 ''0xA'' init_state"]
    malformed_frame_effect
      [of "Inr (JObj [(''content'', JStr ''hi'')])" "test_env (holds 1)" 1
        "s_auth 1 ''0xA'' init_state"]
    u r s show ?thesis by simp
qed

text \<open>
  The claim as stated fails: a frame without a type, and a frame of the unknown type
  leave_room, produce no error frame; the only frame ever sent to connection 1 is the
  earlier auth_result.
\<close>

theorem unknown_type_is_ignored:
  "sent (on_message (test_env (holds 1)) 1 (Inr (JObj [(''content'', JStr ''hi'')]))
      (s_auth 1 ''0xA'' init_state)) = [(1, auth_result True [])] \<and>
   sent (on_message (test_env (holds 1)) 1 (Inr (JObj [(''type'', JStr ''leave_room'')]))
      (s_auth 1 ''0xA'' init_state)) = [(1, auth_result True [])]"
  by (simp add: model_defs)

section \<open>Sessions and rooms\<close>

text \<open>
  Claim C9. addUserToRoom stores a new session whose joined rooms are the room just
  joined and nothing else, and touches no other room of the registry: the connection
  stays a member of the rooms it joined before, which its session no longer lists.
\<close>

theorem addUserToRoom_session_singleton:
  "userSessions (addUserToRoom ws uid r st) ws = Some \<lparr>userId = uid, rooms = [r]\<rparr> \<and>
   (\<forall>r'. r' \<noteq> r \<longrightarrow> chatRooms (addUserToRoom ws uid r st) r' = chatRooms st r')"
  by (simp add: addUserToRoom_def ws_send_def Let_def)

theorem addUserToRoom_session_singleton_witness:
  "chatRooms s_joined1 ''R1'' = Some [1] \<and>
   userSessions s_joined1 1 = Some \<lparr>userId = ''0xA'', rooms = [''R1'']\<rparr> \<and>
   userSessions (addUserToRoom 1 ''0xA'' ''R2'' s_joined1) 1 =
     Some \<lparr>userId = ''0xA'', rooms = [''R2'']\<rparr> \<and>
   chatRooms (addUserToRoom 1 ''0xA'' ''R2'' s_joined1) ''R1'' = Some [1]"
proof -
  have m: "chatRooms s_joined1 ''R1'' = Some [1]"
    and s: "userSessions s_joined1 1 = Some \<lparr>userId = ''0xA'', rooms = [''R1'']\<rparr>"
    by (simp_all add: s_joined1_def model_defs)
  from addUserToRoom_session_singleton [of 1 "''0xA''" "''R2''" s_joined1] m s
  show ?thesis by simp
qed

text \<open>
  Claim C1. A connection should be a member of room R exactly when R is in the joined
  rooms of its session. After connection 1 joins R1 and then R2, it is a member of R1,
  but its session, which addUserToRoom stores anew at every join, holds R2 only.
\<close>

theorem second_join_forgets_first_room:
  "chatRooms s_joined2 ''R1'' = Some [1] \<and>
   chatRooms s_joined2 ''R2'' = Some [1] \<and>
   userSessions s_joined2 1 = Some \<lparr>userId = ''0xA'', rooms = [''R2'']\<rparr>"
  by (simp add: s_joined2_def s_joined1_def model_defs)

text \<open>
  Claim C6. A room whose only member disconnects should leave the registry. Connection
  1 is the only member of R1 and of R2; when it closes, removeUserFromRooms walks the
  rooms of its session, which are R2 only, so R1 stays in the registry with the closed
  connection as its member.
\<close>

theorem room_survives_sole_member_close:
  "chatRooms (on_close 1 s_joined2) ''R1'' = Some [1] \<and>
   chatRooms (on_close 1 s_joined2) ''R2'' = None \<and>
   userSessions (on_close 1 s_joined2) 1 = None \<and>
   readyState (on_close 1 s_joined2) 1 = 3"
  by (simp add: s_joined2_def s_joined1_def model_defs)

subsection \<open>What every step keeps: no room of the registry is empty\<close>

lemma no_empty_room_iff: "([] \<notin> ran m) = (\<forall>k. m k \<noteq> Some [])"
  by (auto simp: ran_def)

lemma Set_add_nonempty: "Set_add x xs \<noteq> []"
  by (auto simp: Set_add_def)

lemma leave_room_nonempty: "[] \<notin> ran cr \<Longrightarrow> [] \<notin> ran (leave_room ws r cr)"
  by (auto simp: no_empty_room_iff leave_room_def split: option.splits)

lemma fold_leave_room_nonempty: "[] \<notin> ran cr \<Longrightarrow> [] \<notin> ran (fold (leave_room ws) rs cr)"
  by (induction rs arbitrary: cr) (simp_all add: leave_room_nonempty)

lemma chatRooms_ws_send: "chatRooms (ws_send ws f st) = chatRooms st"
  by (simp add: ws_send_def)

lemma fold_deliver:
  "fold (deliver m ex) room st =
     st\<lparr>sent := sent st @
        map (\<lambda>c. (c, m)) (filter (\<lambda>c. Some c \<noteq> ex \<and> readyState st c = 1) room)\<rparr>"
proof (induction room arbitrary: st)
  case Nil
  show ?case by simp
next
  case (Cons c cs)
  show ?case
  proof (cases "Some c \<noteq> ex \<and> readyState st c = 1")
    case True
    then have "deliver m ex c st = st\<lparr>sent := sent st @ [(c, m)]\<rparr>"
      by (simp add: deliver_def ws_send_def)
    with True show ?thesis
      by (simp add: Cons.IH)
  next
    case False
    then have "deliver m ex c st = st"
      by (auto simp: deliver_def)
    with False show ?thesis
      by (auto simp: Cons.IH)
  qed
qed

lemma chatRooms_fold_deliver: "chatRooms (fold (deliver m ex) room st) = chatRooms st"
  by (simp add: fold_deliver)

lemma addUserToRoom_nonempty:
  "[] \<notin> ran (chatRooms st) \<Longrightarrow> [] \<notin> ran (chatRooms (addUserToRoom ws uid r st))"
  by (simp add: no_empty_room_iff addUserToRoom_def Let_def chatRooms_ws_send Set_add_nonempty)

lemma removeUserFromRooms_nonempty:
  "[] \<notin> ran (chatRooms st) \<Longrightarrow> [] \<notin> ran (chatRooms (removeUserFromRooms ws uid st))"
  by (simp add: removeUserFromRooms_def fold_leave_room_nonempty split: option.splits)

lemma on_message_nonempty:
  assumes "[] \<notin> ran (chatRooms st)"
  shows "[] \<notin> ran (chatRooms (on_message e ws message st))"
proof -
  have a: "[] \<notin> ran (chatRooms (on_auth e ws data st))" for data
    using assms by (simp add: on_auth_def Let_def chatRooms_ws_send)
  have j: "[] \<notin> ran (chatRooms (on_join_room e ws data st))" for data
    using assms
    by (simp add: on_join_room_def chatRooms_ws_send addUserToRoom_nonempty
        split: option.splits json.splits)
  have s: "[] \<notin> ran (chatRooms (on_send_message e ws data st))" for data
    using assms
    by (simp add: on_send_message_def broadcastToRoom_def chatRooms_ws_send chatRooms_fold_deliver
        split: option.splits)
  show ?thesis
    using assms a j s by (simp add: on_message_def chatRooms_ws_send split: sum.splits)
qed

lemma on_close_nonempty:
  "[] \<notin> ran (chatRooms st) \<Longrightarrow> [] \<notin> ran (chatRooms (on_close ws st))"
  using removeUserFromRooms_nonempty [of "st\<lparr>readyState := (readyState st)(ws := 3)\<rparr>" ws]
  by (simp add: on_close_def Let_def split: option.splits)

lemma on_connection_nonempty:
  "[] \<notin> ran (chatRooms st) \<Longrightarrow> [] \<notin> ran (chatRooms (on_connection ws st))"
  by (simp add: on_connection_def)

subsection \<open>What every step keeps: a joined room has the connection as a member\<close>

lemma leave_room_keeps_others:
  assumes "cr r = Some room" and "ws' \<in> set room" and "ws' \<noteq> ws"
  shows "\<exists>room'. leave_room ws r0 cr r = Some room' \<and> ws' \<in> set room'"
proof (cases "r = r0")
  case True
  from assms have "ws' \<in> set (Set_delete ws room)" by (simp add: Set_delete_def)
  then have "Set_delete ws room \<noteq> []" by auto
  with True assms \<open>ws' \<in> set (Set_delete ws room)\<close> show ?thesis
    by (simp add: leave_room_def)
next
  case False
  with assms show ?thesis
    by (simp add: leave_room_def split: option.splits)
qed

lemma fold_leave_room_keeps_others:
  assumes "cr r = Some room" and "ws' \<in> set room" and "ws' \<noteq> ws"
  shows "\<exists>room'. fold (leave_room ws) rs cr r = Some room' \<and> ws' \<in> set room'"
  using assms
proof (induction rs arbitrary: cr room)
  case Nil
  then show ?case by simp
next
  case (Cons r0 rs)
  from leave_room_keeps_others [of cr r room ws' ws r0] Cons.prems
  obtain room' where "leave_room ws r0 cr r = Some room'" and "ws' \<in> set room'"
    by blast
  with Cons.IH [of "leave_room ws r0 cr" room'] Cons.prems(3) show ?case by simp
qed

lemma addUserToRoom_joined_implies_member:
  assumes "joined_implies_member st"
  shows "joined_implies_member (addUserToRoom ws uid r st)"
  unfolding joined_implies_member_def
proof (intro allI impI)
  fix ws' s r'
  assume s: "userSessions (addUserToRoom ws uid r st) ws' = Some s" and r': "r' \<in> set (rooms s)"
  have cr: "chatRooms (addUserToRoom ws uid r st) =
      (chatRooms st)(r \<mapsto> Set_add ws (case chatRooms st r of None \<Rightarrow> [] | Some x \<Rightarrow> x))"
    by (simp add: addUserToRoom_def Let_def ws_send_def)
  have ws_in: "ws \<in> set (Set_add ws xs)" for xs :: "conn list"
    by (simp add: Set_add_def)
  show "\<exists>room. chatRooms (addUserToRoom ws uid r st) r' = Some room \<and> ws' \<in> set room"
  proof (cases "ws' = ws")
    case True
    with s r' have "r' = r" by (auto simp: addUserToRoom_def Let_def ws_send_def)
    with True cr ws_in show ?thesis by simp
  next
    case False
    with s have "userSessions st ws' = Some s" by (simp add: addUserToRoom_def Let_def ws_send_def)
    with assms r' obtain room where room: "chatRooms st r' = Some room" "ws' \<in> set room"
      unfolding joined_implies_member_def by blast
    show ?thesis
    proof (cases "r' = r")
      case True
      with room cr show ?thesis by (simp add: Set_add_def)
    next
      case False
      with room cr show ?thesis by simp
    qed
  qed
qed

lemma removeUserFromRooms_joined_implies_member:
  assumes "joined_implies_member st"
  shows "joined_implies_member (removeUserFromRooms ws uid st)"
proof (cases "userSessions st ws")
  case None
  with assms show ?thesis by (simp add: removeUserFromRooms_def)
next
  case (Some s0)
  show ?thesis
    unfolding joined_implies_member_def
  proof (intro allI impI)
    fix ws' s r
    assume s: "userSessions (removeUserFromRooms ws uid st) ws' = Some s"
      and r: "r \<in> set (rooms s)"
    from s Some have ne: "ws' \<noteq> ws" and old: "userSessions st ws' = Some s"
      by (auto simp: removeUserFromRooms_def split: if_splits)
    with assms r obtain room where "chatRooms st r = Some room" "ws' \<in> set room"
      unfolding joined_implies_member_def by blast
    with fold_leave_room_keeps_others [of "chatRooms st" r room ws' ws "rooms s0"] ne Some
    show "\<exists>room. chatRooms (removeUserFromRooms ws uid st) r = Some room \<and> ws' \<in> set room"
      by (simp add: removeUserFromRooms_def)
  qed
qed

lemma joined_implies_member_cong:
  "userSessions st' = userSessions st \<Longrightarrow> chatRooms st' = chatRooms st \<Longrightarrow>
   joined_implies_member st \<Longrightarrow> joined_implies_member st'"
  by (simp add: joined_implies_member_def)

lemma on_message_joined_implies_member:
  assumes "joined_implies_member st"
  shows "joined_implies_member (on_message e ws message st)"
proof -
  have w: "joined_implies_member (ws_send c f st)" for c f
    using assms by (rule joined_implies_member_cong [rotated 2]) (simp_all add: ws_send_def)
  have a: "joined_implies_member (on_auth e ws data st)" for data
    using assms
    by (rule joined_implies_member_cong [rotated 2]) (simp_all add: on_auth_def Let_def ws_send_def)
  have j: "joined_implies_member (on_join_room e ws data st)" for data
    using assms w
    by (simp add: on_join_room_def addUserToRoom_joined_implies_member
        split: option.splits json.splits)
  have s: "joined_implies_member (on_send_message e ws data st)" for data
  proof (cases "truthy (conn_userId st ws)")
    case True
    show ?thesis
      using assms
      by (rule joined_implies_member_cong [rotated 2])
        (simp_all add: on_send_message_def broadcastToRoom_def ws_send_def fold_deliver
          split: option.splits)
  next
    case False
    with w show ?thesis
      by (auto simp: on_send_message_def truthy_def split: option.splits)
  qed
  show ?thesis
    using assms w a j s by (simp add: on_message_def split: sum.splits)
qed

lemma on_close_joined_implies_member:
  assumes "joined_implies_member st"
  shows "joined_implies_member (on_close ws st)"
proof -
  let ?st1 = "st\<lparr>readyState := (readyState st)(ws := 3)\<rparr>"
  have 1: "joined_implies_member ?st1"
    using assms by (rule joined_implies_member_cong [rotated 2]) simp_all
  from removeUserFromRooms_joined_implies_member [OF 1] 1 show ?thesis
    by (simp add: on_close_def Let_def split: option.splits)
qed

section \<open>Relaying messages\<close>

text \<open>
  Claim C2, as the code has it. A send_message frame from a connection without an
  identity is answered with the error "Not authenticated" and reaches no member. From a
  connection with an identity the message is relayed to every member of the target room
  other than the sender whose socket is open, whether or not the sender is a member of
  that room: membership is not checked and no such failure exists.
\<close>

theorem send_message_requires_identity_only:
  assumes "get_prop data ''type'' = Some (JStr ''send_message'')"
  shows "(\<not> truthy (conn_userId st ws) \<longrightarrow>
            on_message e ws (Inr data) st = ws_send ws (error_frame ''Not authenticated'') st) \<and>
         (\<forall>uid room. conn_userId st ws = Some uid \<and> uid \<noteq> [] \<and>
              chatRooms_get st (get_prop data ''roomId'') = Some room \<longrightarrow>
            on_message e ws (Inr data) st =
              st\<lparr>sent := sent st @
                 map (\<lambda>c. (c, new_message uid (get_prop data ''content'') (Date_now e)))
                   (filter (\<lambda>c. c \<noteq> ws \<and> readyState st c = 1) room)\<rparr>)"
proof -
  from assms have "data \<noteq> JNull" by (auto simp: get_prop_def)
  with assms show ?thesis
    by (auto simp: on_message_def on_send_message_def truthy_def broadcastToRoom_def fold_deliver
        split: option.splits)
qed

text \<open>
  A fresh connection 7 without identity gets the error; connection 1, authenticated and
  in no room, has its message relayed to connection 2, the member of R1.
\<close>

theorem send_message_requires_identity_only_witness:
  "\<not> truthy (conn_userId (on_connection 7 s_two) 7) \<and>
   on_message (test_env (holds 1)) 7 (send_frame ''R1'' ''hi'') (on_connection 7 s_two) =
     ws_send 7 (error_frame ''Not authenticated'') (on_connection 7 s_two) \<and>
   conn_userId s_two 1 = Some ''0xA'' \<and> chatRooms s_two ''R1'' = Some [2] \<and>
   sent (on_message (test_env (holds 1)) 1 (send_frame ''R1'' ''hi'') s_two) =
     sent s_two @ [(2, new_message ''0xA'' (Some (JStr ''hi'')) 1000)]"
proof -
  have u: "conn_userId (on_connection 7 s_two) 7 = None"
    by (simp add: on_connection_def)
  have a: "conn_userId s_two 1 = Some ''0xA''" and m: "chatRooms s_two ''R1'' = Some [2]"
    and r: "readyState s_two 2 = 1"
    by (simp_all add: s_two_def model_defs)
  let ?d = "JObj [(''type'', JStr ''send_message''), (''roomId'', JStr ''R1''),
    (''content'', JStr ''hi'')]"
  from send_message_requires_identity_only [of ?d "on_connection 7 s_two" 7 "test_env (holds 1)"] u
  have 1: "on_message (test_env (holds 1)) 7 (Inr ?d) (on_connection 7 s_two) =
     ws_send 7 (error_frame ''Not authenticated'') (on_connection 7 s_two)"
    by (simp add: get_prop_def truthy_def)
  from send_message_requires_identity_only [of ?d s_two 1 "test_env (holds 1)"] a m r
  have 2: "sent (on_message (test_env (holds 1)) 1 (Inr ?d) s_two) =
     sent s_two @ [(2, new_message ''0xA'' (Some (JStr ''hi'')) 1000)]"
    by (simp add: get_prop_def chatRooms_get_def test_env_def)
  from 1 2 u a m show ?thesis
    by (simp add: send_frame_def truthy_def)
qed

text \<open>
  The claim as stated fails: connection 1 is not a member of R1 (and holds no key), yet
  its send_message for R1 is delivered to the member 2, and no error is sent.
\<close>

theorem non_member_send_is_delivered:
  "chatRooms s_two ''R1'' = Some [2] \<and>
   sent (on_message (test_env (holds 0)) 1 (send_frame ''R1'' ''hi'') s_two) =
     sent s_two @ [(2, new_message ''0xA'' (Some (JStr ''hi'')) 1000)]"
  by (simp add: s_two_def model_defs)

text \<open>
  Claim C4, as the code has it. For an existing room, broadcastToRoom sends the message,
  in the order of the member set, to each member that is not the excluded sender and
  whose socket is open, and returns nothing (there is no delivered count). When the
  members are A, B and C, all different, and B and C are open, a send from A goes to
  exactly B and C, never to A, and the frames sent are two.
\<close>

theorem broadcast_fan_out:
  assumes "chatRooms_get st roomId = Some room"
  shows "broadcastToRoom roomId m (Some A) st =
           (None, st\<lparr>sent := sent st @
              map (\<lambda>c. (c, m)) (filter (\<lambda>c. c \<noteq> A \<and> readyState st c = 1) room)\<rparr>) \<and>
         (distinct room \<and> set room = {A, B, C} \<and> A \<noteq> B \<and> A \<noteq> C \<and> B \<noteq> C \<and>
          readyState st B = 1 \<and> readyState st C = 1 \<longrightarrow>
            set (filter (\<lambda>c. c \<noteq> A \<and> readyState st c = 1) room) = {B, C} \<and>
            length (filter (\<lambda>c. c \<noteq> A \<and> readyState st c = 1) room) = 2)"
proof -
  have eq: "broadcastToRoom roomId m (Some A) st =
           (None, st\<lparr>sent := sent st @
              map (\<lambda>c. (c, m)) (filter (\<lambda>c. c \<noteq> A \<and> readyState st c = 1) room)\<rparr>)"
    using assms by (simp add: broadcastToRoom_def fold_deliver)
  have sp: "set (filter (\<lambda>c. c \<noteq> A \<and> readyState st c = 1) room) = {B, C} \<and>
            length (filter (\<lambda>c. c \<noteq> A \<and> readyState st c = 1) room) = 2"
    if h: "distinct room" "set room = {A, B, C}" "A \<noteq> B" "A \<noteq> C" "B \<noteq> C"
          "readyState st B = 1" "readyState st C = 1"
  proof -
    let ?fs = "filter (\<lambda>c. c \<noteq> A \<and> readyState st c = 1) room"
    have s: "set ?fs = {B, C}" using h by auto
    have "distinct ?fs" using h(1) by simp
    then have "card (set ?fs) = length ?fs" by (rule distinct_card)
    with s h(5) show ?thesis by simp
  qed
  from eq sp show ?thesis by blast
qed

theorem broadcast_fan_out_witness:
  "chatRooms s_three ''R1'' = Some [1, 2, 3] \<and>
   broadcastToRoom (Some (JStr ''R1'')) (new_message ''0xA'' (Some (JStr ''hi'')) 1000) (Some 1)
       s_three =
     (None, s_three\<lparr>sent := sent s_three @
        [(2, new_message ''0xA'' (Some (JStr ''hi'')) 1000),
         (3, new_message ''0xA'' (Some (JStr ''hi'')) 1000)]\<rparr>) \<and>
   length (filter (\<lambda>c. c \<noteq> 1 \<and> readyState s_three c = 1) [1, 2, 3]) = 2"
proof -
  have m: "chatRooms s_three ''R1'' = Some [1, 2, 3]"
    and r: "readyState s_three 1 = 1" "readyState s_three 2 = 1" "readyState s_three 3 = 1"
    by (simp_all add: s_three_def s_joined1_def model_defs)
  from m have g: "chatRooms_get s_three (Some (JStr ''R1'')) = Some [1, 2, 3]"
    by (simp add: chatRooms_get_def)
  from broadcast_fan_out [OF g, of "new_message ''0xA'' (Some (JStr ''hi'')) 1000" 1 2 3] m r
  show ?thesis by simp
qed

text \<open>
  The claim as stated fails: with members 1, 2 and 3 of R1 all open, the send from 1
  returns undefined, not the count 2.
\<close>

theorem broadcast_returns_no_count:
  "chatRooms s_three ''R1'' = Some [1, 2, 3] \<and>
   fst (broadcastToRoom (Some (JStr ''R1'')) (new_message ''0xA'' (Some (JStr ''hi'')) 1000)
     (Some 1) s_three) = None \<and>
   fst (broadcastToRoom (Some (JStr ''R1'')) (new_message ''0xA'' (Some (JStr ''hi'')) 1000)
     (Some 1) s_three) \<noteq> Some 2"
  by (simp add: s_three_def s_joined1_def model_defs)

text \<open>
  Claim C10. A send_message frame from an authenticated connection for a roomId that has
  no room in the registry does nothing: the state after the frame is the state before
  it, so no frame is sent to anyone (no error frame to the sender either) and no session
  or room changes.
\<close>

theorem send_message_absent_room_noop:
  assumes "conn_userId st ws = Some uid" and "uid \<noteq> []"
    and "get_prop data ''type'' = Some (JStr ''send_message'')"
    and "chatRooms_get st (get_prop data ''roomId'') = None"
  shows "on_message e ws (Inr data) st = st"
proof -
  from assms(3) have "data \<noteq> JNull" by (auto simp: get_prop_def)
  with assms show ?thesis
    by (simp add: on_message_def on_send_message_def broadcastToRoom_def)
qed

theorem send_message_absent_room_noop_witness:
  "chatRooms s_joined1 ''R9'' = None \<and>
   on_message (test_env (holds 1)) 1 (send_frame ''R9'' ''hi'') s_joined1 = s_joined1"
proof -
  have u: "conn_userId s_joined1 1 = Some ''0xA''" and m: "chatRooms s_joined1 ''R9'' = None"
    by (simp_all add: s_joined1_def model_defs)
  from send_message_absent_room_noop [of s_joined1 1 "''0xA''"
      "JObj [(''type'', JStr ''send_message''), (''roomId'', JStr ''R9''), (''content'', JStr ''hi'')]"
      "test_env (holds 1)"] u m
  show ?thesis
    by (simp add: send_frame_def get_prop_def chatRooms_get_def)
qed

end
